theory Spec2Isabelle
  imports Main "HOL-Library.Char_ord" "HOL-Library.List_Lexorder"
begin

section \<open>The responses package: data model\<close>

text \<open>
  The package standardises JSON responses of an HTTP service. Its entry point
  \<open>HTTPResponse\<close> validates a status code, resolves a message from the status
  registry, builds the response envelope, sets three headers, writes the status
  line and the JSON body, and emits one structured log record.

  Go's \<open>int\<close> status codes are only compared and copied, never computed with, so
  they are modelled as \<open>int\<close>; a Go string is a \<open>string\<close> (a list of bytes).
\<close>

subsection \<open>types.go\<close>

text \<open>
  A \<open>map[string]string\<close> is given by its entries (distinct keys); the nil map is
  \<open>None\<close>.
\<close>

type_synonym string_map = "(string \<times> string) list"

text \<open>JSON documents, as syntax trees.\<close>

datatype json =
    JNull
  | JBool bool
  | JNum int
  | JStr string
  | JArr "json list"
  | JObj "(string \<times> json) list"

text \<open>
  The payload \<open>Data interface{}\<close> is opaque to the package. What the package does
  with it is to hand it to \<open>encoding/json\<close>; a non-nil payload is therefore
  represented by what marshalling makes of it: a JSON document, or an error
  (an unsupported type or value, a failing \<open>MarshalJSON\<close>). The nil interface is
  \<open>None\<close> of \<open>go_value option\<close>.
\<close>

datatype go_value = Encodable json | Unencodable string

record ErrorInfo =
  Type :: string
  Details :: "string_map option"

record Response =
  Status :: string
  StatusCode :: int
  Message :: string
  Data :: "go_value option"
  Error :: "ErrorInfo option"

record RequestInfo =
  Method :: string
  Path :: string
  UserAgent :: string
  RemoteIP :: string

subsection \<open>The logger\<close>

text \<open>
  \<open>slog.Level\<close> is an integer type; its zero value is \<open>LevelInfo\<close>. A log record is
  what one call on \<open>defaultConfig.Logger\<close> hands to the logging sink: the
  context, the level, the message and the attributes in order.
\<close>

type_synonym Level = int

abbreviation (input) LevelInfo :: Level where "LevelInfo \<equiv> 0"
abbreviation (input) LevelWarn :: Level where "LevelWarn \<equiv> 4"
abbreviation (input) LevelError :: Level where "LevelError \<equiv> 8"

datatype go_context = Background | RequestContext nat

datatype attr_value =
    AInt int
  | AString string
  | ADetails "string_map option"
  | AError string

record log_record =
  log_ctx :: go_context
  log_level :: Level
  log_msg :: string
  log_attrs :: "(string \<times> attr_value) list"

definition Logger_Warn :: "string \<Rightarrow> (string \<times> attr_value) list \<Rightarrow> log_record" where
  "Logger_Warn m as =
     \<lparr>log_ctx = Background, log_level = LevelWarn, log_msg = m, log_attrs = as\<rparr>"

definition Logger_ErrorContext ::
  "go_context \<Rightarrow> string \<Rightarrow> (string \<times> attr_value) list \<Rightarrow> log_record" where
  "Logger_ErrorContext c m as =
     \<lparr>log_ctx = c, log_level = LevelError, log_msg = m, log_attrs = as\<rparr>"

definition Logger_LogAttrs ::
  "go_context \<Rightarrow> Level \<Rightarrow> string \<Rightarrow> (string \<times> attr_value) list \<Rightarrow> log_record" where
  "Logger_LogAttrs c l m as =
     \<lparr>log_ctx = c, log_level = l, log_msg = m, log_attrs = as\<rparr>"

subsection \<open>status\_map.go\<close>

record StatusConfig =
  LogLevel :: Level
  DefaultMessage :: string
  ErrorType :: string

text \<open>
  The registry is the package variable \<open>statusConfigMap\<close>. It is mutable state
  of the process, so every function that reads it takes the registry as an
  argument; \<open>statusConfigMap\<close> below is its initial value.
\<close>

type_synonym registry = "int \<rightharpoonup> StatusConfig"

definition statusConfigList :: "(int \<times> StatusConfig) list" where
  "statusConfigList =
    [(200, \<lparr>LogLevel = LevelInfo, DefaultMessage = ''Request was successful'', ErrorType = ''''\<rparr>),
     (201, \<lparr>LogLevel = LevelInfo, DefaultMessage = ''Resource created successfully'', ErrorType = ''''\<rparr>),
     (202, \<lparr>LogLevel = LevelInfo, DefaultMessage = ''Request accepted'', ErrorType = ''''\<rparr>),
     (204, \<lparr>LogLevel = LevelInfo, DefaultMessage = ''Request completed successfully'', ErrorType = ''''\<rparr>),
     (400, \<lparr>LogLevel = LevelWarn, DefaultMessage = ''The request contains invalid data'',
            ErrorType = ''validation_error''\<rparr>),
     (401, \<lparr>LogLevel = LevelWarn,
            DefaultMessage = ''Authentication is required to access this resource'',
            ErrorType = ''authentication_error''\<rparr>),
     (403, \<lparr>LogLevel = LevelWarn,
            DefaultMessage = ''You do not have permission to access this resource'',
            ErrorType = ''authorization_error''\<rparr>),
     (404, \<lparr>LogLevel = LevelInfo, DefaultMessage = ''The requested resource was not found'',
            ErrorType = ''not_found''\<rparr>),
     (405, \<lparr>LogLevel = LevelWarn,
            DefaultMessage = ''The requested method is not allowed for this resource'',
            ErrorType = ''method_not_allowed''\<rparr>),
     (409, \<lparr>LogLevel = LevelWarn,
            DefaultMessage = ''The request could not be completed due to a conflict with the current state of the resource'',
            ErrorType = ''conflict''\<rparr>),
     (422, \<lparr>LogLevel = LevelWarn,
            DefaultMessage = ''The request was well-formed but could not be processed due to semantic errors'',
            ErrorType = ''unprocessable_entity''\<rparr>),
     (429, \<lparr>LogLevel = LevelWarn,
            DefaultMessage = ''Too many requests have been made in a given amount of time'',
            ErrorType = ''rate_limit_exceeded''\<rparr>),
     (500, \<lparr>LogLevel = LevelError, DefaultMessage = ''An unexpected error occurred on the server'',
            ErrorType = ''internal_server_error''\<rparr>),
     (501, \<lparr>LogLevel = LevelError,
            DefaultMessage = ''The requested functionality is not implemented'',
            ErrorType = ''not_implemented''\<rparr>),
     (502, \<lparr>LogLevel = LevelError,
            DefaultMessage = ''The server received an invalid response from an upstream server'',
            ErrorType = ''bad_gateway''\<rparr>),
     (503, \<lparr>LogLevel = LevelError,
            DefaultMessage = ''The server is currently unable to handle the request due to temporary overload or maintenance'',
            ErrorType = ''service_unavailable''\<rparr>),
     (504, \<lparr>LogLevel = LevelError,
            DefaultMessage = ''The server did not receive a timely response from an upstream server'',
            ErrorType = ''gateway_timeout''\<rparr>),
     (505, \<lparr>LogLevel = LevelError,
            DefaultMessage = ''The server does not support the HTTP protocol version used in the request'',
            ErrorType = ''http_version_not_supported''\<rparr>),
     (506, \<lparr>LogLevel = LevelError,
            DefaultMessage = ''The server has an internal configuration error and cannot complete the request'',
            ErrorType = ''variant_also_negotiates''\<rparr>)]"

definition statusConfigMap :: registry where
  "statusConfigMap = map_of statusConfigList"

definition getMessageForStatus :: "registry \<Rightarrow> int \<Rightarrow> string \<Rightarrow> string" where
  "getMessageForStatus reg statusCode providedMessage =
     (if providedMessage \<noteq> '''' then providedMessage
      else case reg statusCode of
        Some config \<Rightarrow> DefaultMessage config
      | None \<Rightarrow>
          if statusCode \<ge> 200 \<and> statusCode < 300 then ''Request completed successfully''
          else if statusCode \<ge> 300 \<and> statusCode < 400 then ''Request requires further action''
          else if statusCode \<ge> 400 \<and> statusCode < 500 then ''Client error occurred''
          else if statusCode \<ge> 500 then ''Server error occurred''
          else ''Response completed'')"

definition GetStatusConfig :: "registry \<Rightarrow> int \<Rightarrow> StatusConfig \<times> bool" where
  "GetStatusConfig reg statusCode =
     (case reg statusCode of
        Some cfg \<Rightarrow> (cfg, True)
      | None \<Rightarrow> (\<lparr>LogLevel = 0, DefaultMessage = '''', ErrorType = ''''\<rparr>, False))"

subsection \<open>Status code validation\<close>

text \<open>
  \<open>validateStatusCode\<close> returns the code to use together with the log records it
  emits.
\<close>

definition validateStatusCode :: "int \<Rightarrow> int \<times> log_record list" where
  "validateStatusCode statusCode =
     (if statusCode < 100 \<or> statusCode > 599
      then (500, [Logger_Warn ''Invalid HTTP status code provided, using 500''
                    [(''provided_code'', AInt statusCode)]])
      else (statusCode, []))"

subsection \<open>The standard library\<close>

text \<open>
  The package calls into Go's standard library. \<open>strings.Split\<close> and the header
  map are modelled directly. \<open>strings.TrimSpace\<close>, \<open>net.ParseIP\<close>,
  \<open>net.SplitHostPort\<close> and the byte-level rendering of a JSON document are taken as
  parameters, collected in a record: \<open>ParseIP lib s\<close> stands for
  \<open>net.ParseIP(s) != nil\<close>, \<open>SplitHostPort lib s\<close> is \<open>None\<close> when the call returns
  an error, and \<open>Render lib j\<close> are the bytes \<open>encoding/json\<close> writes for the
  document \<open>j\<close>. Every theorem below holds for every such library.
\<close>

record golib =
  TrimSpace :: "string \<Rightarrow> string"
  ParseIP :: "string \<Rightarrow> bool"
  SplitHostPort :: "string \<Rightarrow> (string \<times> string) option"
  Render :: "json \<Rightarrow> string"

text \<open>\<open>strings.Split(s, sep)\<close> for a one-byte separator: \<open>n\<close> separators give \<open>n + 1\<close> tokens.\<close>

fun strings_Split :: "string \<Rightarrow> char \<Rightarrow> string list" where
  "strings_Split [] sep = [[]]"
| "strings_Split (c # cs) sep =
     (if c = sep then [] # strings_Split cs sep
      else (case strings_Split cs sep of
              [] \<Rightarrow> [[c]]
            | t # ts \<Rightarrow> (c # t) # ts))"

text \<open>
  \<open>http.Header\<close> is a \<open>map[string][]string\<close> keyed by canonical header names.
  \<open>Get\<close> and \<open>Set\<close> canonicalise the name they are given. For a name made of
  letters, digits and hyphens, as all names in this package are, that is: the
  first letter and every letter after a hyphen in upper case, the rest in lower
  case (so \<open>X-Real-IP\<close> is stored and looked up as \<open>X-Real-Ip\<close>). \<open>Get\<close> returns
  the first value stored under the name, or the empty string when there is none.
\<close>

type_synonym Header = "string \<rightharpoonup> string list"

definition toUpper :: "char \<Rightarrow> char" where
  "toUpper c =
     (if CHR ''a'' \<le> c \<and> c \<le> CHR ''z'' then char_of (of_char c - (32::nat)) else c)"

definition toLower :: "char \<Rightarrow> char" where
  "toLower c =
     (if CHR ''A'' \<le> c \<and> c \<le> CHR ''Z'' then char_of (of_char c + (32::nat)) else c)"

fun canonical :: "bool \<Rightarrow> string \<Rightarrow> string" where
  "canonical upper [] = []"
| "canonical upper (c # cs) =
     (if upper then toUpper c else toLower c) # canonical (c = CHR ''-'') cs"

definition CanonicalMIMEHeaderKey :: "string \<Rightarrow> string" where
  "CanonicalMIMEHeaderKey s = canonical True s"

definition Header_Get :: "Header \<Rightarrow> string \<Rightarrow> string" where
  "Header_Get h key =
     (case h (CanonicalMIMEHeaderKey key) of
        None \<Rightarrow> ''''
      | Some [] \<Rightarrow> ''''
      | Some (v # vs) \<Rightarrow> v)"

definition Header_Set :: "Header \<Rightarrow> string \<Rightarrow> string \<Rightarrow> Header" where
  "Header_Set h key v = h(CanonicalMIMEHeaderKey key \<mapsto> [v])"

text \<open>
  The fields of \<open>*http.Request\<close> the package reads: the method, the path of the
  URL, the headers, the remote address and the context. A nil request is
  \<open>None\<close> of \<open>Request option\<close>.
\<close>

record Request =
  req_Method :: string
  req_URL_Path :: string
  req_Header :: Header
  req_RemoteAddr :: string
  req_Context :: go_context

text \<open>
  \<open>http.ResponseWriter\<close> is an interface supplied by the server. The model
  records the calls made on it: the header map, the status codes passed to
  \<open>WriteHeader\<close> in order, and the bytes accepted by \<open>Write\<close>. A writer whose
  \<open>Write\<close> fails (a closed connection, say) has \<open>rw_write_err = Some e\<close>: it accepts
  no bytes and returns \<open>e\<close>.
\<close>

record ResponseWriter =
  rw_header :: Header
  rw_status :: "int list"
  rw_body :: string
  rw_write_err :: "string option"

definition WriteHeader :: "ResponseWriter \<Rightarrow> int \<Rightarrow> ResponseWriter" where
  "WriteHeader w statusCode = w\<lparr>rw_status := rw_status w @ [statusCode]\<rparr>"

definition Write :: "ResponseWriter \<Rightarrow> string \<Rightarrow> ResponseWriter \<times> string option" where
  "Write w b =
     (case rw_write_err w of
        Some e \<Rightarrow> (w, Some e)
      | None \<Rightarrow> (w\<lparr>rw_body := rw_body w @ b\<rparr>, None))"

subsection \<open>JSON encoding of the envelope\<close>

text \<open>
  \<open>encoding/json\<close> follows the struct tags of \<open>Response\<close> and \<open>ErrorInfo\<close>: the
  fields in declaration order under their tag names (\<open>status\<close>, \<open>statusCode\<close>,
  \<open>message\<close>, \<open>data\<close>, \<open>error\<close>; \<open>type\<close>, \<open>details\<close>); a field tagged
  \<open>omitempty\<close> is left out when it is a nil interface, a nil pointer or a map of
  length 0; the keys of a map are written in sorted order. Marshalling fails
  when the payload is not encodable, and then produces no document.
\<close>

definition marshal_Details :: "string_map \<Rightarrow> json" where
  "marshal_Details m = JObj (map (\<lambda>kv. (fst kv, JStr (snd kv))) (sort_key fst m))"

definition marshal_ErrorInfo :: "ErrorInfo \<Rightarrow> json" where
  "marshal_ErrorInfo e =
     JObj ((''type'', JStr (Type e)) #
           (case Details e of
              None \<Rightarrow> []
            | Some m \<Rightarrow> if m = [] then [] else [(''details'', marshal_Details m)]))"

definition marshal_Response :: "Response \<Rightarrow> string + json" where
  "marshal_Response resp =
     (case Data resp of
        Some (Unencodable err) \<Rightarrow> Inl err
      | _ \<Rightarrow>
        Inr (JObj
          ([(''status'', JStr (Status resp)),
            (''statusCode'', JNum (StatusCode resp)),
            (''message'', JStr (Message resp))] @
           (case Data resp of Some (Encodable j) \<Rightarrow> [(''data'', j)] | _ \<Rightarrow> []) @
           (case Error resp of Some e \<Rightarrow> [(''error'', marshal_ErrorInfo e)] | None \<Rightarrow> []))))"

text \<open>
  \<open>json.NewEncoder(w).Encode(resp)\<close>: marshal into a buffer, append a newline,
  write the buffer with one \<open>Write\<close>. A marshalling error is returned before
  anything is written.
\<close>

definition Encode :: "golib \<Rightarrow> ResponseWriter \<Rightarrow> Response \<Rightarrow> ResponseWriter \<times> string option" where
  "Encode lib w resp =
     (case marshal_Response resp of
        Inl err \<Rightarrow> (w, Some err)
      | Inr j \<Rightarrow> Write w (Render lib j @ [CHR 0x0A]))"

definition json_field :: "json \<Rightarrow> string \<Rightarrow> json option" where
  "json_field j key = (case j of JObj kvs \<Rightarrow> map_of kvs key | _ \<Rightarrow> None)"

definition json_keys :: "json \<Rightarrow> string list" where
  "json_keys j = (case j of JObj kvs \<Rightarrow> map fst kvs | _ \<Rightarrow> [])"

subsection \<open>extract.go\<close>

text \<open>The loop over the tokens of \<open>X-Forwarded-For\<close>: the first valid token is returned.\<close>

fun firstValidIP :: "golib \<Rightarrow> string list \<Rightarrow> string option" where
  "firstValidIP lib [] = None"
| "firstValidIP lib (ip # ips) =
     (let ip' = TrimSpace lib ip
      in if ParseIP lib ip' then Some ip' else firstValidIP lib ips)"

definition getClientIP :: "golib \<Rightarrow> Request \<Rightarrow> string" where
  "getClientIP lib r =
     (let forwarded = Header_Get (req_Header r) ''X-Forwarded-For'' in
      case (if forwarded \<noteq> '''' then firstValidIP lib (strings_Split forwarded (CHR '',''))
            else None) of
        Some ip \<Rightarrow> ip
      | None \<Rightarrow>
          (let xRealIP = Header_Get (req_Header r) ''X-Real-IP'' in
           if xRealIP \<noteq> '''' \<and> ParseIP lib (TrimSpace lib xRealIP)
           then TrimSpace lib xRealIP
           else (case SplitHostPort lib (req_RemoteAddr r) of
                   Some (ip, port) \<Rightarrow> if ParseIP lib ip then ip else req_RemoteAddr r
                 | None \<Rightarrow> req_RemoteAddr r)))"

definition extractRequestInfo :: "golib \<Rightarrow> Request \<Rightarrow> RequestInfo" where
  "extractRequestInfo lib r =
     \<lparr>Method = req_Method r,
      Path = req_URL_Path r,
      UserAgent = Header_Get (req_Header r) ''User-Agent'',
      RemoteIP = getClientIP lib r\<rparr>"

subsection \<open>httpresponses.go: \<open>HTTPResponse\<close>\<close>

text \<open>
  The classification of the (validated) status code: the local variables
  \<open>status\<close> and \<open>errorInfo\<close> after the \<open>if statusCode >= 400\<close> block.
\<close>

definition HTTPResponse_errorInfo ::
  "registry \<Rightarrow> int \<Rightarrow> string_map option \<Rightarrow> string \<times> ErrorInfo option" where
  "HTTPResponse_errorInfo reg statusCode details =
     (if statusCode \<ge> 400
      then (''error'',
            Some \<lparr>Type = (case reg statusCode of
                            Some config \<Rightarrow>
                              if ErrorType config \<noteq> '''' then ErrorType config
                              else ''unknown_error''
                          | None \<Rightarrow> ''unknown_error''),
                  Details = details\<rparr>)
      else (''success'', None))"

text \<open>The level of the final log record.\<close>

definition HTTPResponse_logLevel :: "registry \<Rightarrow> int \<Rightarrow> Level" where
  "HTTPResponse_logLevel reg statusCode =
     (case reg statusCode of
        Some config \<Rightarrow> LogLevel config
      | None \<Rightarrow>
          if statusCode \<ge> 500 then LevelError
          else if statusCode \<ge> 400 then LevelWarn
          else LevelInfo)"

definition HTTPResponse_logMessage :: "int \<Rightarrow> string" where
  "HTTPResponse_logMessage statusCode =
     (if statusCode \<ge> 500 then ''HTTP server error response sent''
      else if statusCode \<ge> 400 then ''HTTP client error response sent''
      else ''HTTP response sent'')"

text \<open>The attributes accumulated for the log record.\<close>

definition HTTPResponse_logAttrs ::
  "int \<Rightarrow> string \<Rightarrow> string \<Rightarrow> RequestInfo \<Rightarrow> ErrorInfo option \<Rightarrow> (string \<times> attr_value) list" where
  "HTTPResponse_logAttrs statusCode status message reqInfo errorInfo =
     [(''statusCode'', AInt statusCode),
      (''status'', AString status),
      (''message'', AString message),
      (''method'', AString (Method reqInfo)),
      (''path'', AString (Path reqInfo)),
      (''user_agent'', AString (UserAgent reqInfo)),
      (''remote_ip'', AString (RemoteIP reqInfo))] @
     (case errorInfo of
        Some e \<Rightarrow> [(''error_type'', AString (Type e)), (''error_details'', ADetails (Details e))]
      | None \<Rightarrow> [])"

text \<open>
  The request snapshot and the records logged while taking it. With a nil
  request \<open>reqInfo\<close> keeps the zero value of \<open>RequestInfo\<close> and a warning is
  logged.
\<close>

definition HTTPResponse_reqInfo :: "golib \<Rightarrow> Request option \<Rightarrow> RequestInfo \<times> log_record list" where
  "HTTPResponse_reqInfo lib r =
     (case r of
        Some req \<Rightarrow> (extractRequestInfo lib req, [])
      | None \<Rightarrow>
          (\<lparr>Method = '''', Path = '''', UserAgent = '''', RemoteIP = ''''\<rparr>,
           [Logger_Warn ''JSON response called with nil request'' []]))"

text \<open>The three headers set on every response.\<close>

definition HTTPResponse_headers :: "ResponseWriter \<Rightarrow> ResponseWriter" where
  "HTTPResponse_headers w =
     w\<lparr>rw_header :=
         Header_Set
           (Header_Set
              (Header_Set (rw_header w) ''Content-Type'' ''application/json'')
              ''X-Content-Type-Options'' ''nosniff'')
           ''Cache-Control'' ''no-cache, no-store, must-revalidate''\<rparr>"

text \<open>
  The envelope \<open>resp\<close> that \<open>HTTPResponse\<close> builds from its arguments and hands
  to the encoder.
\<close>

definition HTTPResponse_resp ::
  "registry \<Rightarrow> int \<Rightarrow> string \<Rightarrow> go_value option \<Rightarrow> string_map option \<Rightarrow> Response" where
  "HTTPResponse_resp reg statusCode0 message0 data details =
     (let statusCode = fst (validateStatusCode statusCode0);
          message = getMessageForStatus reg statusCode message0;
          (status, errorInfo) = HTTPResponse_errorInfo reg statusCode details
      in \<lparr>Status = status, StatusCode = statusCode, Message = message,
           Data = data, Error = errorInfo\<rparr>)"

text \<open>
  \<open>HTTPResponse\<close> returns nothing to its caller; its effects are the calls on the
  writer and the records handed to the logger, in order.
\<close>

definition HTTPResponse ::
  "golib \<Rightarrow> registry \<Rightarrow> ResponseWriter \<Rightarrow> Request option \<Rightarrow> int \<Rightarrow> string \<Rightarrow>
   go_value option \<Rightarrow> string_map option \<Rightarrow> ResponseWriter \<times> log_record list" where
  "HTTPResponse lib reg w r statusCode0 message0 data details =
     (let (statusCode, vlog) = validateStatusCode statusCode0;
          ctx = (case r of Some req \<Rightarrow> req_Context req | None \<Rightarrow> Background);
          (reqInfo, rlog) = HTTPResponse_reqInfo lib r;
          message = getMessageForStatus reg statusCode message0;
          (status, errorInfo) = HTTPResponse_errorInfo reg statusCode details;
          w1 = HTTPResponse_headers w;
          resp = \<lparr>Status = status, StatusCode = statusCode, Message = message,
                   Data = data, Error = errorInfo\<rparr>;
          logLevel = HTTPResponse_logLevel reg statusCode;
          w2 = WriteHeader w1 statusCode;
          logAttrs = HTTPResponse_logAttrs statusCode status message reqInfo errorInfo
      in case Encode lib w2 resp of
           (w3, Some err) \<Rightarrow>
             (w3, vlog @ rlog @
                  [Logger_ErrorContext ctx ''Failed to encode JSON response''
                     (logAttrs @ [(''encoding_error'', AError err)])])
         | (w3, None) \<Rightarrow>
             (w3, vlog @ rlog @
                  [Logger_LogAttrs ctx logLevel (HTTPResponse_logMessage statusCode) logAttrs]))"

subsection \<open>httpresponses.go: the variant \<open>JSONResponse\<close>\<close>

text \<open>
  Modelled from the spec: the file \<open>utils/responses/httpresponses.go\<close> holds a
  second variant of the entry point, \<open>JSONResponse\<close>, which keeps the request
  snapshot in a map with the keys \<open>method\<close>, \<open>path\<close>, \<open>user_agent\<close> and
  \<open>remote_ip\<close>. The map-returning \<open>extractRequestInfo\<close> it calls is not among the
  sources; following the specification's extractor it is taken to hold the
  four values of the struct-returning one, and the map is modelled by the
  record with these four fields. The nil-request branch is in the source: it
  fills the snapshot with the placeholder \<open>UNKNOWN\<close> and logs a warning.
\<close>

definition JSONResponse_reqInfo :: "golib \<Rightarrow> Request option \<Rightarrow> RequestInfo \<times> log_record list" where
  "JSONResponse_reqInfo lib r =
     (case r of
        Some req \<Rightarrow> (extractRequestInfo lib req, [])
      | None \<Rightarrow>
          (\<lparr>Method = ''UNKNOWN'', Path = ''UNKNOWN'', UserAgent = ''UNKNOWN'',
            RemoteIP = ''UNKNOWN''\<rparr>,
           [Logger_Warn ''JSON response called with nil request'' []]))"

text \<open>
  The statement \<open>defaultConfig.Logger.Log(config.LogLevel, ...)\<close> of this variant
  names a variable \<open>config\<close> that is not in scope at that point; it has no
  meaning in Go and is left out. Everything else follows the source.
\<close>

definition JSONResponse ::
  "golib \<Rightarrow> registry \<Rightarrow> ResponseWriter \<Rightarrow> Request option \<Rightarrow> int \<Rightarrow> string \<Rightarrow>
   go_value option \<Rightarrow> string_map option \<Rightarrow> ResponseWriter \<times> log_record list" where
  "JSONResponse lib reg w r statusCode0 message0 data details =
     (let (statusCode, vlog) = validateStatusCode statusCode0;
          ctx = (case r of Some req \<Rightarrow> req_Context req | None \<Rightarrow> Background);
          message = getMessageForStatus reg statusCode message0;
          (reqInfo, rlog) = JSONResponse_reqInfo lib r;
          (status, errorInfo) = HTTPResponse_errorInfo reg statusCode details;
          w1 = HTTPResponse_headers w;
          resp = \<lparr>Status = status, StatusCode = statusCode, Message = message,
                   Data = data, Error = errorInfo\<rparr>;
          w2 = WriteHeader w1 statusCode;
          logAttrs = HTTPResponse_logAttrs statusCode status message reqInfo errorInfo
      in case Encode lib w2 resp of
           (w3, Some err) \<Rightarrow>
             (w3, vlog @ rlog @
                  [Logger_ErrorContext ctx ''Failed to encode JSON response''
                     (logAttrs @ [(''encoding_error'', AError err)])])
         | (w3, None) \<Rightarrow>
             (w3, vlog @ rlog @
                  [Logger_LogAttrs ctx (HTTPResponse_logLevel reg statusCode)
                     (HTTPResponse_logMessage statusCode) logAttrs]))"

section \<open>The specification's reading\<close>

text \<open>
  The client-IP resolver as the specification words it: the first valid token
  of the comma-separated \<open>X-Forwarded-For\<close> value, else the trimmed \<open>X-Real-IP\<close>
  value if valid, else the host of the remote address if valid, else the remote
  address itself. A header that is absent or empty contributes nothing.
\<close>

definition forwarded_candidates :: "golib \<Rightarrow> Header \<Rightarrow> string list" where
  "forwarded_candidates lib h =
     (if Header_Get h ''X-Forwarded-For'' = '''' then []
      else filter (ParseIP lib)
             (map (TrimSpace lib) (strings_Split (Header_Get h ''X-Forwarded-For'') (CHR '',''))))"

definition real_ip_candidates :: "golib \<Rightarrow> Header \<Rightarrow> string list" where
  "real_ip_candidates lib h =
     (if Header_Get h ''X-Real-IP'' = '''' then []
      else filter (ParseIP lib) [TrimSpace lib (Header_Get h ''X-Real-IP'')])"

definition remote_host_candidates :: "golib \<Rightarrow> string \<Rightarrow> string list" where
  "remote_host_candidates lib remote =
     (case SplitHostPort lib remote of
        Some hp \<Rightarrow> filter (ParseIP lib) [fst hp]
      | None \<Rightarrow> [])"

definition resolve_spec :: "golib \<Rightarrow> Header \<Rightarrow> string \<Rightarrow> string" where
  "resolve_spec lib h remote =
     hd (forwarded_candidates lib h @ real_ip_candidates lib h @
         remote_host_candidates lib remote @ [remote])"

text \<open>The generic fallback message, by the class of the status code.\<close>

definition fallback_message :: "int \<Rightarrow> string" where
  "fallback_message statusCode =
     (if statusCode div 100 = 2 then ''Request completed successfully''
      else if statusCode div 100 = 3 then ''Request requires further action''
      else if statusCode div 100 = 4 then ''Client error occurred''
      else if statusCode \<ge> 500 then ''Server error occurred''
      else ''Response completed'')"

text \<open>A status code is valid when it lies in the range 100 to 599.\<close>

definition valid_status :: "int \<Rightarrow> bool" where
  "valid_status statusCode = (100 \<le> statusCode \<and> statusCode \<le> 599)"

section \<open>A library instance for running examples\<close>

text \<open>
  The theorems hold for every library. To run the functions on concrete
  requests, the following instance covers the inputs of the examples: ASCII
  white space, dotted-quad IPv4 literals, \<open>host:port\<close> with a single colon, and
  compact JSON text for strings that need no escaping.
\<close>

definition asciiSpace :: "char \<Rightarrow> bool" where
  "asciiSpace c =
     (c = CHR 0x09 \<or> c = CHR 0x0A \<or> c = CHR 0x0B \<or> c = CHR 0x0C \<or> c = CHR 0x0D \<or> c = CHR '' '')"

definition ascii_TrimSpace :: "string \<Rightarrow> string" where
  "ascii_TrimSpace s = rev (dropWhile asciiSpace (rev (dropWhile asciiSpace s)))"

definition isDigit :: "char \<Rightarrow> bool" where
  "isDigit c = (CHR ''0'' \<le> c \<and> c \<le> CHR ''9'')"

definition decimal :: "string \<Rightarrow> nat" where
  "decimal s = foldl (\<lambda>n c. 10 * n + (of_char c - 48)) 0 s"

definition ipv4_octet :: "string \<Rightarrow> bool" where
  "ipv4_octet s =
     (s \<noteq> [] \<and> length s \<le> 3 \<and> list_all isDigit s \<and>
      (if length s > 1 then hd s \<noteq> CHR ''0'' else True) \<and> decimal s \<le> 255)"

definition ipv4_literal :: "string \<Rightarrow> bool" where
  "ipv4_literal s =
     (let parts = strings_Split s (CHR ''.'')
      in length parts = 4 \<and> list_all ipv4_octet parts)"

definition colon_SplitHostPort :: "string \<Rightarrow> (string \<times> string) option" where
  "colon_SplitHostPort s =
     (let port = rev (takeWhile (\<lambda>c. c \<noteq> CHR '':'') (rev s));
          rest = dropWhile (\<lambda>c. c \<noteq> CHR '':'') (rev s)
      in if rest = [] \<or> CHR '':'' \<in> set (tl rest) then None
         else Some (rev (tl rest), port))"

fun digits :: "nat \<Rightarrow> string" where
  "digits n =
     (if n < 10 then [char_of (48 + n)]
      else digits (n div 10) @ [char_of (48 + n mod 10)])"

definition quote :: "string \<Rightarrow> string" where
  "quote s = [CHR 0x22] @ s @ [CHR 0x22]"

fun commas :: "string list \<Rightarrow> string" where
  "commas [] = []"
| "commas [x] = x"
| "commas (x # y # ys) = x @ '','' @ commas (y # ys)"

fun compact :: "json \<Rightarrow> string" where
  "compact JNull = ''null''"
| "compact (JBool b) = (if b then ''true'' else ''false'')"
| "compact (JNum n) = (if n < 0 then ''-'' @ digits (nat (- n)) else digits (nat n))"
| "compact (JStr s) = quote s"
| "compact (JArr xs) = ''['' @ commas (map compact xs) @ '']''"
| "compact (JObj kvs) =
     ''{'' @ commas (map (\<lambda>kv. quote (fst kv) @ '':'' @ compact (snd kv)) kvs) @ ''}''"

definition example_lib :: golib where
  "example_lib =
     \<lparr>TrimSpace = ascii_TrimSpace, ParseIP = ipv4_literal,
      SplitHostPort = colon_SplitHostPort, Render = compact\<rparr>"

text \<open>A recorder with nothing written yet, and two requests.\<close>

definition new_recorder :: ResponseWriter where
  "new_recorder =
     \<lparr>rw_header = Map.empty, rw_status = [], rw_body = '''', rw_write_err = None\<rparr>"

definition get_request :: Request where
  "get_request =
     \<lparr>req_Method = ''GET'', req_URL_Path = ''/test'',
      req_Header = [''X-Forwarded-For'' \<mapsto> [''not-an-ip, 9.9.9.9''],
                    ''User-Agent'' \<mapsto> [''TestAgent'']],
      req_RemoteAddr = ''192.0.2.1:1234'', req_Context = RequestContext 1\<rparr>"

definition post_request :: Request where
  "post_request =
     \<lparr>req_Method = ''POST'', req_URL_Path = ''/fail'', req_Header = Map.empty,
      req_RemoteAddr = ''6.6.6.6:1234'', req_Context = RequestContext 2\<rparr>"

section \<open>Properties\<close>

subsection \<open>Validation, the encoder and the writer\<close>

lemma validateStatusCode_valid: "valid_status sc \<Longrightarrow> validateStatusCode sc = (sc, [])"
  by (simp add: valid_status_def validateStatusCode_def)

lemma validateStatusCode_invalid:
  "\<not> valid_status sc \<Longrightarrow>
   validateStatusCode sc =
     (500, [Logger_Warn ''Invalid HTTP status code provided, using 500''
              [(''provided_code'', AInt sc)]])"
  by (auto simp add: valid_status_def validateStatusCode_def)

lemma validateStatusCode_range: "valid_status (fst (validateStatusCode sc))"
  by (simp add: valid_status_def validateStatusCode_def)

lemma Encode_status: "rw_status (fst (Encode lib w resp)) = rw_status w"
  by (simp add: Encode_def Write_def split: sum.splits option.splits)

lemma Encode_header: "rw_header (fst (Encode lib w resp)) = rw_header w"
  by (simp add: Encode_def Write_def split: sum.splits option.splits)

lemma Encode_failure: "snd (Encode lib w resp) = Some err \<Longrightarrow> fst (Encode lib w resp) = w"
  by (auto simp add: Encode_def Write_def split: sum.splits option.splits)

lemma Encode_success:
  "snd (Encode lib w resp) = None \<Longrightarrow>
   \<exists>j. marshal_Response resp = Inr j \<and>
       fst (Encode lib w resp) = w\<lparr>rw_body := rw_body w @ Render lib j @ [CHR 0x0A]\<rparr>"
  by (auto simp add: Encode_def Write_def split: sum.splits option.splits)

text \<open>
  What \<open>HTTPResponse\<close> leaves in the writer: the three headers, the status line,
  and whatever the encoder wrote of the envelope.
\<close>

lemma HTTPResponse_writer:
  "fst (HTTPResponse lib reg w r sc msg data details) =
   fst (Encode lib (WriteHeader (HTTPResponse_headers w) (fst (validateStatusCode sc)))
          (HTTPResponse_resp reg sc msg data details))"
  by (simp add: HTTPResponse_def HTTPResponse_resp_def Let_def split: prod.splits option.splits)

lemma resp_StatusCode:
  "StatusCode (HTTPResponse_resp reg sc msg data details) = fst (validateStatusCode sc)"
  by (simp add: HTTPResponse_resp_def Let_def split: prod.splits)

lemma resp_Status:
  "Status (HTTPResponse_resp reg sc msg data details) =
     (if fst (validateStatusCode sc) \<ge> 400 then ''error'' else ''success'')"
  by (simp add: HTTPResponse_resp_def HTTPResponse_errorInfo_def Let_def split: prod.splits)

lemma resp_Message:
  "Message (HTTPResponse_resp reg sc msg data details) =
     getMessageForStatus reg (fst (validateStatusCode sc)) msg"
  by (simp add: HTTPResponse_resp_def Let_def split: prod.splits)

lemma resp_Data: "Data (HTTPResponse_resp reg sc msg data details) = data"
  by (simp add: HTTPResponse_resp_def Let_def split: prod.splits)

lemma resp_Error:
  "Error (HTTPResponse_resp reg sc msg data details) =
     snd (HTTPResponse_errorInfo reg (fst (validateStatusCode sc)) details)"
  by (simp add: HTTPResponse_resp_def Let_def split: prod.splits)

subsection \<open>Entries of the initial registry\<close>

lemma registry_200:
  "statusConfigMap 200 =
     Some \<lparr>LogLevel = LevelInfo, DefaultMessage = ''Request was successful'', ErrorType = ''''\<rparr>"
  by (simp add: statusConfigMap_def statusConfigList_def)

lemma registry_404:
  "statusConfigMap 404 =
     Some \<lparr>LogLevel = LevelInfo, DefaultMessage = ''The requested resource was not found'',
           ErrorType = ''not_found''\<rparr>"
  by (simp add: statusConfigMap_def statusConfigList_def)

lemma registry_500:
  "statusConfigMap 500 =
     Some \<lparr>LogLevel = LevelError, DefaultMessage = ''An unexpected error occurred on the server'',
           ErrorType = ''internal_server_error''\<rparr>"
  by (simp add: statusConfigMap_def statusConfigList_def)

lemma registry_418: "statusConfigMap 418 = None"
  by (simp add: statusConfigMap_def statusConfigList_def)

subsection \<open>Message resolution\<close>

lemma div_100_2: "(sc::int) div 100 = 2 \<longleftrightarrow> 200 \<le> sc \<and> sc < 300"
  by linarith

lemma div_100_3: "(sc::int) div 100 = 3 \<longleftrightarrow> 300 \<le> sc \<and> sc < 400"
  by linarith

lemma div_100_4: "(sc::int) div 100 = 4 \<longleftrightarrow> 400 \<le> sc \<and> sc < 500"
  by linarith

lemma fallback_message_ranges:
  "fallback_message sc =
     (if sc \<ge> 200 \<and> sc < 300 then ''Request completed successfully''
      else if sc \<ge> 300 \<and> sc < 400 then ''Request requires further action''
      else if sc \<ge> 400 \<and> sc < 500 then ''Client error occurred''
      else if sc \<ge> 500 then ''Server error occurred''
      else ''Response completed'')"
  unfolding fallback_message_def div_100_2 div_100_3 div_100_4 by simp

text \<open>
  Claim C4. For every status code and provided message, \<open>getMessageForStatus\<close>
  returns the provided message verbatim when it is non-empty; when it is empty
  and the code is registered, the registered default message; when it is empty
  and the code is unregistered, the fallback of the code's class: 2xx, 3xx, 4xx,
  codes from 500 on, and \<open>Response completed\<close> for the rest.
\<close>

theorem getMessageForStatus_resolution:
  "getMessageForStatus reg sc msg =
     (if msg \<noteq> '''' then msg
      else case reg sc of
             Some config \<Rightarrow> DefaultMessage config
           | None \<Rightarrow> fallback_message sc)"
  unfolding getMessageForStatus_def fallback_message_ranges by (simp split: option.splits)

theorem getMessageForStatus_resolution_witness:
  "getMessageForStatus statusConfigMap 404 ''gone'' = ''gone'' \<and>
   getMessageForStatus statusConfigMap 404 '''' = ''The requested resource was not found'' \<and>
   getMessageForStatus statusConfigMap 418 '''' = ''Client error occurred'' \<and>
   getMessageForStatus statusConfigMap 700 '''' = ''Server error occurred'' \<and>
   getMessageForStatus statusConfigMap 99 '''' = ''Response completed''"
  using getMessageForStatus_resolution [of statusConfigMap 404 "''gone''"]
    getMessageForStatus_resolution [of statusConfigMap 404 "''''"]
    getMessageForStatus_resolution [of statusConfigMap 418 "''''"]
    getMessageForStatus_resolution [of statusConfigMap 700 "''''"]
    getMessageForStatus_resolution [of statusConfigMap 99 "''''"]
  by (simp add: statusConfigMap_def statusConfigList_def fallback_message_def)


subsection \<open>The status line and the body\<close>

lemma HTTPResponse_status:
  "rw_status (fst (HTTPResponse lib reg w r sc msg data details)) =
     rw_status w @ [fst (validateStatusCode sc)]"
  by (simp add: HTTPResponse_writer Encode_status WriteHeader_def HTTPResponse_headers_def)

lemma HTTPResponse_header:
  "rw_header (fst (HTTPResponse lib reg w r sc msg data details)) =
     rw_header (HTTPResponse_headers w)"
  by (simp add: HTTPResponse_writer Encode_header WriteHeader_def)

lemma HTTPResponse_headers_values:
  "rw_header (HTTPResponse_headers w) ''Content-Type'' = Some [''application/json''] \<and>
   rw_header (HTTPResponse_headers w) ''X-Content-Type-Options'' = Some [''nosniff''] \<and>
   rw_header (HTTPResponse_headers w) ''Cache-Control'' =
     Some [''no-cache, no-store, must-revalidate'']"
  by (simp add: HTTPResponse_headers_def Header_Set_def CanonicalMIMEHeaderKey_def
      toUpper_def toLower_def)

lemma HTTPResponse_sets_headers:
  "rw_header (fst (HTTPResponse lib reg w r sc msg data details)) ''Content-Type'' =
     Some [''application/json''] \<and>
   rw_header (fst (HTTPResponse lib reg w r sc msg data details)) ''X-Content-Type-Options'' =
     Some [''nosniff''] \<and>
   rw_header (fst (HTTPResponse lib reg w r sc msg data details)) ''Cache-Control'' =
     Some [''no-cache, no-store, must-revalidate'']"
  using HTTPResponse_headers_values [of w] by (simp add: HTTPResponse_header)

lemma marshal_statusCode_field:
  "marshal_Response resp = Inr j \<Longrightarrow> json_field j ''statusCode'' = Some (JNum (StatusCode resp))"
  by (auto simp add: marshal_Response_def json_field_def split: option.splits go_value.splits)

lemma example_envelope_success:
  "HTTPResponse_resp statusConfigMap 200 ''Success!''
     (Some (Encodable (JObj [(''foo'', JStr ''bar'')]))) None =
   \<lparr>Status = ''success'', StatusCode = 200, Message = ''Success!'',
    Data = Some (Encodable (JObj [(''foo'', JStr ''bar'')])), Error = None\<rparr>"
  by (simp add: HTTPResponse_resp_def validateStatusCode_def getMessageForStatus_def
      HTTPResponse_errorInfo_def)

lemma example_marshal_success:
  "marshal_Response (HTTPResponse_resp statusConfigMap 200 ''Success!''
     (Some (Encodable (JObj [(''foo'', JStr ''bar'')]))) None) =
   Inr (JObj [(''status'', JStr ''success''), (''statusCode'', JNum 200),
              (''message'', JStr ''Success!''), (''data'', JObj [(''foo'', JStr ''bar'')])])"
  by (simp add: example_envelope_success marshal_Response_def)

text \<open>
  Claim C1, as amended. For every status code in 100..599 and every message,
  payload and details, \<open>HTTPResponse\<close> passes exactly that code to \<open>WriteHeader\<close>,
  once, and the envelope it hands to the encoder carries the same code. When
  the envelope marshals to a document \<open>j\<close> and the writer accepts the write,
  the body written is the rendering of \<open>j\<close> followed by a newline, and the
  \<open>statusCode\<close> field of \<open>j\<close> is that code. When marshalling fails, no body
  is written.
\<close>

theorem valid_status_written_once:
  assumes "valid_status sc"
  shows "rw_status (fst (HTTPResponse lib reg w r sc msg data details)) = rw_status w @ [sc] \<and>
         StatusCode (HTTPResponse_resp reg sc msg data details) = sc \<and>
         (\<forall>j. marshal_Response (HTTPResponse_resp reg sc msg data details) = Inr j \<longrightarrow>
              rw_write_err w = None \<longrightarrow>
              rw_body (fst (HTTPResponse lib reg w r sc msg data details)) =
                rw_body w @ Render lib j @ [CHR 0x0A] \<and>
              json_field j ''statusCode'' = Some (JNum sc)) \<and>
         (\<forall>err. marshal_Response (HTTPResponse_resp reg sc msg data details) = Inl err \<longrightarrow>
              rw_body (fst (HTTPResponse lib reg w r sc msg data details)) = rw_body w)"
proof -
  have v: "fst (validateStatusCode sc) = sc"
    using assms by (simp add: validateStatusCode_valid)
  have nobody: "rw_body (fst (HTTPResponse lib reg w r sc msg data details)) = rw_body w"
    if m: "marshal_Response (HTTPResponse_resp reg sc msg data details) = Inl err" for err
    by (simp add: HTTPResponse_writer Encode_def m WriteHeader_def HTTPResponse_headers_def)
  have st: "rw_status (fst (HTTPResponse lib reg w r sc msg data details)) = rw_status w @ [sc]"
    by (simp add: HTTPResponse_status v)
  have code: "StatusCode (HTTPResponse_resp reg sc msg data details) = sc"
    by (simp add: resp_StatusCode v)
  have body: "rw_body (fst (HTTPResponse lib reg w r sc msg data details)) =
                rw_body w @ Render lib j @ [CHR 0x0A] \<and>
              json_field j ''statusCode'' = Some (JNum sc)"
    if m: "marshal_Response (HTTPResponse_resp reg sc msg data details) = Inr j"
      and ok: "rw_write_err w = None" for j
  proof -
    have "rw_body (fst (HTTPResponse lib reg w r sc msg data details)) =
                rw_body w @ Render lib j @ [CHR 0x0A]"
      by (simp add: HTTPResponse_writer Encode_def m Write_def ok WriteHeader_def
          HTTPResponse_headers_def)
    moreover have "json_field j ''statusCode'' = Some (JNum sc)"
      using marshal_statusCode_field [OF m] code by simp
    ultimately show ?thesis by simp
  qed
  from st code body nobody show ?thesis by blast
qed

theorem valid_status_written_once_witness:
  "valid_status 200 \<and>
   rw_write_err new_recorder = None \<and>
   rw_status (fst (HTTPResponse example_lib statusConfigMap new_recorder (Some get_request)
      200 ''Success!'' (Some (Encodable (JObj [(''foo'', JStr ''bar'')]))) None)) = [200] \<and>
   rw_body (fst (HTTPResponse example_lib statusConfigMap new_recorder (Some get_request)
      200 ''Success!'' (Some (Encodable (JObj [(''foo'', JStr ''bar'')]))) None)) =
     compact (JObj [(''status'', JStr ''success''), (''statusCode'', JNum 200),
                    (''message'', JStr ''Success!''), (''data'', JObj [(''foo'', JStr ''bar'')])])
     @ [CHR 0x0A] \<and>
   json_field (JObj [(''status'', JStr ''success''), (''statusCode'', JNum 200),
                    (''message'', JStr ''Success!''), (''data'', JObj [(''foo'', JStr ''bar'')])])
     ''statusCode'' = Some (JNum 200)"
proof -
  have a: "valid_status 200" by (simp add: valid_status_def)
  have ok: "rw_write_err new_recorder = None" by (simp add: new_recorder_def)
  from valid_status_written_once [OF a, of example_lib statusConfigMap new_recorder
      "Some get_request" "''Success!''" "Some (Encodable (JObj [(''foo'', JStr ''bar'')]))" None]
    example_marshal_success ok
  have "rw_status (fst (HTTPResponse example_lib statusConfigMap new_recorder (Some get_request)
      200 ''Success!'' (Some (Encodable (JObj [(''foo'', JStr ''bar'')]))) None)) =
        rw_status new_recorder @ [200] \<and>
   rw_body (fst (HTTPResponse example_lib statusConfigMap new_recorder (Some get_request)
      200 ''Success!'' (Some (Encodable (JObj [(''foo'', JStr ''bar'')]))) None)) =
     rw_body new_recorder @
     Render example_lib (JObj [(''status'', JStr ''success''), (''statusCode'', JNum 200),
                    (''message'', JStr ''Success!''), (''data'', JObj [(''foo'', JStr ''bar'')])])
     @ [CHR 0x0A] \<and>
   json_field (JObj [(''status'', JStr ''success''), (''statusCode'', JNum 200),
                    (''message'', JStr ''Success!''), (''data'', JObj [(''foo'', JStr ''bar'')])])
     ''statusCode'' = Some (JNum 200)"
    by blast
  then show ?thesis
    using a ok by (simp add: new_recorder_def example_lib_def)
qed

text \<open>
  Claim C1 as stated fails where the payload cannot be encoded (a channel,
  say): the status line is written, but the encoder returns its error before
  writing anything, so no JSON body with a status-code field exists.
\<close>

theorem unencodable_payload_no_body:
  "valid_status 200 \<and>
   marshal_Response (HTTPResponse_resp statusConfigMap 200 ''Success!''
      (Some (Unencodable ''json: unsupported type: chan int'')) None) =
     Inl ''json: unsupported type: chan int'' \<and>
   rw_status (fst (HTTPResponse example_lib statusConfigMap new_recorder (Some get_request)
      200 ''Success!'' (Some (Unencodable ''json: unsupported type: chan int'')) None)) = [200] \<and>
   rw_body (fst (HTTPResponse example_lib statusConfigMap new_recorder (Some get_request)
      200 ''Success!'' (Some (Unencodable ''json: unsupported type: chan int'')) None)) = ''''"
  by (simp add: valid_status_def HTTPResponse_writer HTTPResponse_resp_def validateStatusCode_def
      getMessageForStatus_def HTTPResponse_errorInfo_def Encode_def marshal_Response_def
      WriteHeader_def HTTPResponse_headers_def new_recorder_def)

subsection \<open>The log record of a call\<close>

text \<open>
  The records \<open>HTTPResponse\<close> hands to the logger, by the outcome of the encoder:
  the error record when it fails, the per-response record when it succeeds.
\<close>

lemma HTTPResponse_encode_failure:
  assumes "snd (Encode lib (WriteHeader (HTTPResponse_headers w) (fst (validateStatusCode sc)))
                  (HTTPResponse_resp reg sc msg data details)) = Some err"
  shows "HTTPResponse lib reg w r sc msg data details =
           (WriteHeader (HTTPResponse_headers w) (fst (validateStatusCode sc)),
            snd (validateStatusCode sc) @ snd (HTTPResponse_reqInfo lib r) @
            [Logger_ErrorContext (case r of Some req \<Rightarrow> req_Context req | None \<Rightarrow> Background)
               ''Failed to encode JSON response''
               (HTTPResponse_logAttrs
                  (StatusCode (HTTPResponse_resp reg sc msg data details))
                  (Status (HTTPResponse_resp reg sc msg data details))
                  (Message (HTTPResponse_resp reg sc msg data details))
                  (fst (HTTPResponse_reqInfo lib r))
                  (Error (HTTPResponse_resp reg sc msg data details)) @
                [(''encoding_error'', AError err)])])"
proof -
  obtain code vlog where v: "validateStatusCode sc = (code, vlog)" by (cases "validateStatusCode sc")
  obtain info rlog where q: "HTTPResponse_reqInfo lib r = (info, rlog)"
    by (cases "HTTPResponse_reqInfo lib r")
  obtain status einfo where e: "HTTPResponse_errorInfo reg code details = (status, einfo)"
    by (cases "HTTPResponse_errorInfo reg code details")
  have resp: "HTTPResponse_resp reg sc msg data details =
      \<lparr>Status = status, StatusCode = code, Message = getMessageForStatus reg code msg,
       Data = data, Error = einfo\<rparr>"
    by (simp add: HTTPResponse_resp_def v e)
  obtain w3 where enc: "Encode lib (WriteHeader (HTTPResponse_headers w) code)
      \<lparr>Status = status, StatusCode = code, Message = getMessageForStatus reg code msg,
       Data = data, Error = einfo\<rparr> = (w3, Some err)"
    using assms by (cases "Encode lib (WriteHeader (HTTPResponse_headers w) code)
      \<lparr>Status = status, StatusCode = code, Message = getMessageForStatus reg code msg,
       Data = data, Error = einfo\<rparr>") (simp add: resp v)
  have w3: "w3 = WriteHeader (HTTPResponse_headers w) code"
    using Encode_failure [of lib "WriteHeader (HTTPResponse_headers w) code" _ err] enc
    by (metis fst_conv snd_conv)
  show ?thesis
    by (simp add: HTTPResponse_def v q e enc w3 resp)
qed

lemma HTTPResponse_encode_success:
  assumes "snd (Encode lib (WriteHeader (HTTPResponse_headers w) (fst (validateStatusCode sc)))
                  (HTTPResponse_resp reg sc msg data details)) = None"
  shows "snd (HTTPResponse lib reg w r sc msg data details) =
            snd (validateStatusCode sc) @ snd (HTTPResponse_reqInfo lib r) @
            [Logger_LogAttrs (case r of Some req \<Rightarrow> req_Context req | None \<Rightarrow> Background)
               (HTTPResponse_logLevel reg (fst (validateStatusCode sc)))
               (HTTPResponse_logMessage (fst (validateStatusCode sc)))
               (HTTPResponse_logAttrs
                  (StatusCode (HTTPResponse_resp reg sc msg data details))
                  (Status (HTTPResponse_resp reg sc msg data details))
                  (Message (HTTPResponse_resp reg sc msg data details))
                  (fst (HTTPResponse_reqInfo lib r))
                  (Error (HTTPResponse_resp reg sc msg data details)))]"
proof -
  obtain code vlog where v: "validateStatusCode sc = (code, vlog)" by (cases "validateStatusCode sc")
  obtain info rlog where q: "HTTPResponse_reqInfo lib r = (info, rlog)"
    by (cases "HTTPResponse_reqInfo lib r")
  obtain status einfo where e: "HTTPResponse_errorInfo reg code details = (status, einfo)"
    by (cases "HTTPResponse_errorInfo reg code details")
  have resp: "HTTPResponse_resp reg sc msg data details =
      \<lparr>Status = status, StatusCode = code, Message = getMessageForStatus reg code msg,
       Data = data, Error = einfo\<rparr>"
    by (simp add: HTTPResponse_resp_def v e)
  obtain w3 where enc: "Encode lib (WriteHeader (HTTPResponse_headers w) code)
      \<lparr>Status = status, StatusCode = code, Message = getMessageForStatus reg code msg,
       Data = data, Error = einfo\<rparr> = (w3, None)"
    using assms by (cases "Encode lib (WriteHeader (HTTPResponse_headers w) code)
      \<lparr>Status = status, StatusCode = code, Message = getMessageForStatus reg code msg,
       Data = data, Error = einfo\<rparr>") (simp add: resp v)
  show ?thesis
    by (simp add: HTTPResponse_def v q e enc resp)
qed

subsection \<open>The envelope\<close>

text \<open>The error scenario of the test suite: status 400, no message, details given.\<close>

lemma example_envelope_error:
  "HTTPResponse_resp statusConfigMap 400 '''' None (Some [(''field'', ''email'')]) =
   \<lparr>Status = ''error'', StatusCode = 400, Message = ''The request contains invalid data'',
    Data = None,
    Error = Some \<lparr>Type = ''validation_error'', Details = Some [(''field'', ''email'')]\<rparr>\<rparr>"
  by (simp add: HTTPResponse_resp_def validateStatusCode_def getMessageForStatus_def
      HTTPResponse_errorInfo_def statusConfigMap_def statusConfigList_def)

lemma example_marshal_error:
  "marshal_Response
     (HTTPResponse_resp statusConfigMap 400 '''' None (Some [(''field'', ''email'')])) =
   Inr (JObj [(''status'', JStr ''error''), (''statusCode'', JNum 400),
              (''message'', JStr ''The request contains invalid data''),
              (''error'', JObj [(''type'', JStr ''validation_error''),
                                 (''details'', JObj [(''field'', JStr ''email'')])])])"
  by (simp add: example_envelope_error marshal_Response_def marshal_ErrorInfo_def
      marshal_Details_def)

text \<open>
  Claim C2. For every call, registered or unregistered code alike, the status
  field of the envelope is \<open>error\<close> exactly when the validated status code is at
  least 400, and the error field is present exactly when the status is
  \<open>error\<close>. The envelope is the one the encoder is given.
\<close>

theorem envelope_status_invariant:
  "(Status (HTTPResponse_resp reg sc msg data details) = ''error'' \<longleftrightarrow>
      StatusCode (HTTPResponse_resp reg sc msg data details) \<ge> 400) \<and>
   (Error (HTTPResponse_resp reg sc msg data details) \<noteq> None \<longleftrightarrow>
      Status (HTTPResponse_resp reg sc msg data details) = ''error'') \<and>
   Status (HTTPResponse_resp reg sc msg data details) =
     (if StatusCode (HTTPResponse_resp reg sc msg data details) \<ge> 400 then ''error''
      else ''success'') \<and>
   StatusCode (HTTPResponse_resp reg sc msg data details) = fst (validateStatusCode sc) \<and>
   fst (HTTPResponse lib reg w r sc msg data details) =
     fst (Encode lib
            (WriteHeader (HTTPResponse_headers w)
               (StatusCode (HTTPResponse_resp reg sc msg data details)))
            (HTTPResponse_resp reg sc msg data details))"
proof -
  have err: "Error (HTTPResponse_resp reg sc msg data details) \<noteq> None \<longleftrightarrow>
      fst (validateStatusCode sc) \<ge> 400"
    by (simp add: resp_Error HTTPResponse_errorInfo_def)
  show ?thesis
    using err HTTPResponse_writer [of lib reg w r sc msg data details]
    by (simp add: resp_StatusCode resp_Status)
qed

theorem envelope_status_invariant_witness:
  "Status (HTTPResponse_resp statusConfigMap 418 '''' None None) = ''error'' \<and>
   StatusCode (HTTPResponse_resp statusConfigMap 418 '''' None None) = 418 \<and>
   Error (HTTPResponse_resp statusConfigMap 418 '''' None None) \<noteq> None \<and>
   Status (HTTPResponse_resp statusConfigMap 200 '''' None None) = ''success'' \<and>
   Error (HTTPResponse_resp statusConfigMap 200 '''' None None) = None"
  using envelope_status_invariant [of statusConfigMap 418 "''''" None None example_lib new_recorder None]
    envelope_status_invariant [of statusConfigMap 200 "''''" None None example_lib new_recorder None]
  by (auto simp add: validateStatusCode_def)

lemma marshal_error_field:
  fixes resp :: Response
  assumes "marshal_Response resp = Inr j" and "Error resp = Some e"
  shows "json_field j ''error'' = Some (marshal_ErrorInfo e)"
  using assms
  by (auto simp add: marshal_Response_def json_field_def split: option.splits go_value.splits)

lemma marshal_ErrorInfo_type: "json_field (marshal_ErrorInfo e) ''type'' = Some (JStr (Type e))"
  by (simp add: marshal_ErrorInfo_def json_field_def)

lemma logAttrs_error:
  "(''error_type'', AString (Type e)) \<in> set (HTTPResponse_logAttrs c s m info (Some e)) \<and>
   (''error_details'', ADetails (Details e)) \<in> set (HTTPResponse_logAttrs c s m info (Some e))"
  by (simp add: HTTPResponse_logAttrs_def)

lemma HTTPResponse_last_record_attrs:
  "snd (HTTPResponse lib reg w r sc msg data details) \<noteq> [] \<and>
   set (HTTPResponse_logAttrs
          (StatusCode (HTTPResponse_resp reg sc msg data details))
          (Status (HTTPResponse_resp reg sc msg data details))
          (Message (HTTPResponse_resp reg sc msg data details))
          (fst (HTTPResponse_reqInfo lib r))
          (Error (HTTPResponse_resp reg sc msg data details)))
     \<subseteq> set (log_attrs (last (snd (HTTPResponse lib reg w r sc msg data details))))"
proof (cases "snd (Encode lib (WriteHeader (HTTPResponse_headers w) (fst (validateStatusCode sc)))
                  (HTTPResponse_resp reg sc msg data details))")
  case None
  show ?thesis
    by (simp add: HTTPResponse_encode_success [OF None] Logger_LogAttrs_def)
next
  case (Some err)
  show ?thesis
    by (auto simp add: HTTPResponse_encode_failure [OF Some] Logger_ErrorContext_def)
qed

text \<open>
  Claim C7. When the validated status code is at least 400, the error detail
  of the envelope carries the details given and, as its type, the error type
  of the registered profile if the code is registered with a non-empty type,
  and \<open>unknown_error\<close> otherwise. The type of an error detail in the envelope is
  never empty. The envelope is the one \<open>HTTPResponse\<close> hands to the encoder:
  when it marshals and the writer accepts the write, the body written carries
  the error detail with that type under the key \<open>error\<close>; and the last log
  record of the call carries the type as \<open>error_type\<close> and the details as
  \<open>error_details\<close>.
\<close>

theorem error_type_from_registry:
  "(fst (validateStatusCode sc) \<ge> 400 \<longrightarrow>
      (\<exists>e. Error (HTTPResponse_resp reg sc msg data details) = Some e \<and>
           Details e = details \<and>
           Type e = (case reg (fst (validateStatusCode sc)) of
                       Some config \<Rightarrow>
                         if ErrorType config \<noteq> '''' then ErrorType config
                         else ''unknown_error''
                     | None \<Rightarrow> ''unknown_error''))) \<and>
   (\<forall>e. Error (HTTPResponse_resp reg sc msg data details) = Some e \<longrightarrow> Type e \<noteq> '''') \<and>
   fst (HTTPResponse lib reg w r sc msg data details) =
     fst (Encode lib
            (WriteHeader (HTTPResponse_headers w)
               (StatusCode (HTTPResponse_resp reg sc msg data details)))
            (HTTPResponse_resp reg sc msg data details)) \<and>
   (\<forall>e j. Error (HTTPResponse_resp reg sc msg data details) = Some e \<longrightarrow>
          marshal_Response (HTTPResponse_resp reg sc msg data details) = Inr j \<longrightarrow>
          rw_write_err w = None \<longrightarrow>
          rw_body (fst (HTTPResponse lib reg w r sc msg data details)) =
            rw_body w @ Render lib j @ [CHR 0x0A] \<and>
          json_field j ''error'' = Some (marshal_ErrorInfo e) \<and>
          json_field (marshal_ErrorInfo e) ''type'' = Some (JStr (Type e))) \<and>
   (\<forall>e. Error (HTTPResponse_resp reg sc msg data details) = Some e \<longrightarrow>
        snd (HTTPResponse lib reg w r sc msg data details) \<noteq> [] \<and>
        (''error_type'', AString (Type e)) \<in>
          set (log_attrs (last (snd (HTTPResponse lib reg w r sc msg data details)))) \<and>
        (''error_details'', ADetails (Details e)) \<in>
          set (log_attrs (last (snd (HTTPResponse lib reg w r sc msg data details)))))"
proof -
  have ty: "(fst (validateStatusCode sc) \<ge> 400 \<longrightarrow>
      (\<exists>e. Error (HTTPResponse_resp reg sc msg data details) = Some e \<and>
           Details e = details \<and>
           Type e = (case reg (fst (validateStatusCode sc)) of
                       Some config \<Rightarrow>
                         if ErrorType config \<noteq> '''' then ErrorType config
                         else ''unknown_error''
                     | None \<Rightarrow> ''unknown_error''))) \<and>
   (\<forall>e. Error (HTTPResponse_resp reg sc msg data details) = Some e \<longrightarrow> Type e \<noteq> '''')"
    by (auto simp add: resp_Error HTTPResponse_errorInfo_def split: option.splits)
  have wr: "fst (HTTPResponse lib reg w r sc msg data details) =
     fst (Encode lib
            (WriteHeader (HTTPResponse_headers w)
               (StatusCode (HTTPResponse_resp reg sc msg data details)))
            (HTTPResponse_resp reg sc msg data details))"
    by (simp add: HTTPResponse_writer resp_StatusCode)
  have body: "rw_body (fst (HTTPResponse lib reg w r sc msg data details)) =
            rw_body w @ Render lib j @ [CHR 0x0A] \<and>
          json_field j ''error'' = Some (marshal_ErrorInfo e) \<and>
          json_field (marshal_ErrorInfo e) ''type'' = Some (JStr (Type e))"
    if e: "Error (HTTPResponse_resp reg sc msg data details) = Some e"
      and m: "marshal_Response (HTTPResponse_resp reg sc msg data details) = Inr j"
      and ok: "rw_write_err w = None" for e j
  proof -
    have "rw_body (fst (HTTPResponse lib reg w r sc msg data details)) =
            rw_body w @ Render lib j @ [CHR 0x0A]"
      by (simp add: HTTPResponse_writer Encode_def m Write_def ok WriteHeader_def
          HTTPResponse_headers_def)
    with marshal_error_field [OF m e] marshal_ErrorInfo_type [of e] show ?thesis by simp
  qed
  have logs: "snd (HTTPResponse lib reg w r sc msg data details) \<noteq> [] \<and>
        (''error_type'', AString (Type e)) \<in>
          set (log_attrs (last (snd (HTTPResponse lib reg w r sc msg data details)))) \<and>
        (''error_details'', ADetails (Details e)) \<in>
          set (log_attrs (last (snd (HTTPResponse lib reg w r sc msg data details))))"
    if e: "Error (HTTPResponse_resp reg sc msg data details) = Some e" for e
    using HTTPResponse_last_record_attrs [of lib reg w r sc msg data details]
      logAttrs_error [of e "StatusCode (HTTPResponse_resp reg sc msg data details)"
        "Status (HTTPResponse_resp reg sc msg data details)"
        "Message (HTTPResponse_resp reg sc msg data details)"
        "fst (HTTPResponse_reqInfo lib r)"]
    unfolding e by blast
  from ty wr body logs show ?thesis by blast
qed

lemma example_envelope_not_found:
  "HTTPResponse_resp statusConfigMap 404 '''' None (Some [(''field'', ''email'')]) =
   \<lparr>Status = ''error'', StatusCode = 404, Message = ''The requested resource was not found'',
    Data = None,
    Error = Some \<lparr>Type = ''not_found'', Details = Some [(''field'', ''email'')]\<rparr>\<rparr>"
  by (simp add: HTTPResponse_resp_def validateStatusCode_def getMessageForStatus_def
      HTTPResponse_errorInfo_def registry_404)

lemma example_marshal_not_found:
  "marshal_Response
     (HTTPResponse_resp statusConfigMap 404 '''' None (Some [(''field'', ''email'')])) =
   Inr (JObj [(''status'', JStr ''error''), (''statusCode'', JNum 404),
              (''message'', JStr ''The requested resource was not found''),
              (''error'', JObj [(''type'', JStr ''not_found''),
                                 (''details'', JObj [(''field'', JStr ''email'')])])])"
  by (simp add: example_envelope_not_found marshal_Response_def marshal_ErrorInfo_def
      marshal_Details_def)

theorem error_type_from_registry_witness:
  "fst (validateStatusCode 404) \<ge> 400 \<and>
   Error (HTTPResponse_resp statusConfigMap 404 '''' None (Some [(''field'', ''email'')])) =
     Some \<lparr>Type = ''not_found'', Details = Some [(''field'', ''email'')]\<rparr> \<and>
   Error (HTTPResponse_resp statusConfigMap 418 '''' None None) =
     Some \<lparr>Type = ''unknown_error'', Details = None\<rparr> \<and>
   rw_write_err new_recorder = None \<and>
   rw_body (fst (HTTPResponse example_lib statusConfigMap new_recorder (Some post_request)
      404 '''' None (Some [(''field'', ''email'')]))) =
     compact (JObj [(''status'', JStr ''error''), (''statusCode'', JNum 404),
                    (''message'', JStr ''The requested resource was not found''),
                    (''error'', JObj [(''type'', JStr ''not_found''),
                                       (''details'', JObj [(''field'', JStr ''email'')])])])
     @ [CHR 0x0A] \<and>
   (''error_type'', AString ''not_found'') \<in>
     set (log_attrs (last (snd (HTTPResponse example_lib statusConfigMap new_recorder
        (Some post_request) 404 '''' None (Some [(''field'', ''email'')]))))) \<and>
   (''error_details'', ADetails (Some [(''field'', ''email'')])) \<in>
     set (log_attrs (last (snd (HTTPResponse example_lib statusConfigMap new_recorder
        (Some post_request) 404 '''' None (Some [(''field'', ''email'')])))))"
proof -
  note t = error_type_from_registry [of 404 statusConfigMap "''''" None
      "Some [(''field'', ''email'')]" example_lib new_recorder "Some post_request"]
  note u = error_type_from_registry [of 418 statusConfigMap "''''" None None
      example_lib new_recorder None]
  have c: "fst (validateStatusCode 404) \<ge> 400" by (simp add: validateStatusCode_def)
  have e: "Error (HTTPResponse_resp statusConfigMap 404 '''' None (Some [(''field'', ''email'')])) =
     Some \<lparr>Type = ''not_found'', Details = Some [(''field'', ''email'')]\<rparr>"
    using t by (auto simp add: validateStatusCode_def registry_404)
  have e': "Error (HTTPResponse_resp statusConfigMap 418 '''' None None) =
     Some \<lparr>Type = ''unknown_error'', Details = None\<rparr>"
    using u by (auto simp add: validateStatusCode_def registry_418)
  have ok: "rw_write_err new_recorder = None" by (simp add: new_recorder_def)
  from t e example_marshal_not_found ok
  have "rw_body (fst (HTTPResponse example_lib statusConfigMap new_recorder (Some post_request)
      404 '''' None (Some [(''field'', ''email'')]))) =
     rw_body new_recorder @
     Render example_lib
       (JObj [(''status'', JStr ''error''), (''statusCode'', JNum 404),
              (''message'', JStr ''The requested resource was not found''),
              (''error'', JObj [(''type'', JStr ''not_found''),
                                 (''details'', JObj [(''field'', JStr ''email'')])])])
     @ [CHR 0x0A]"
    by blast
  then have body: "rw_body (fst (HTTPResponse example_lib statusConfigMap new_recorder
      (Some post_request) 404 '''' None (Some [(''field'', ''email'')]))) =
     compact (JObj [(''status'', JStr ''error''), (''statusCode'', JNum 404),
                    (''message'', JStr ''The requested resource was not found''),
                    (''error'', JObj [(''type'', JStr ''not_found''),
                                       (''details'', JObj [(''field'', JStr ''email'')])])])
     @ [CHR 0x0A]"
    by (simp add: new_recorder_def example_lib_def)
  from t e
  have "(''error_type'',
          AString (Type \<lparr>Type = ''not_found'', Details = Some [(''field'', ''email'')]\<rparr>)) \<in>
     set (log_attrs (last (snd (HTTPResponse example_lib statusConfigMap new_recorder
        (Some post_request) 404 '''' None (Some [(''field'', ''email'')]))))) \<and>
   (''error_details'',
          ADetails (Details \<lparr>Type = ''not_found'', Details = Some [(''field'', ''email'')]\<rparr>)) \<in>
     set (log_attrs (last (snd (HTTPResponse example_lib statusConfigMap new_recorder
        (Some post_request) 404 '''' None (Some [(''field'', ''email'')])))))"
    by blast
  then have lg: "(''error_type'', AString ''not_found'') \<in>
     set (log_attrs (last (snd (HTTPResponse example_lib statusConfigMap new_recorder
        (Some post_request) 404 '''' None (Some [(''field'', ''email'')]))))) \<and>
   (''error_details'', ADetails (Some [(''field'', ''email'')])) \<in>
     set (log_attrs (last (snd (HTTPResponse example_lib statusConfigMap new_recorder
        (Some post_request) 404 '''' None (Some [(''field'', ''email'')])))))"
    by simp
  from c e e' ok body lg show ?thesis by blast
qed

subsection \<open>Invalid status codes\<close>

lemma validate_500: "validateStatusCode 500 = (500, [])"
  by (simp add: validateStatusCode_def)

lemma HTTPResponse_logs_invalid:
  "\<not> valid_status sc \<Longrightarrow>
   snd (HTTPResponse lib reg w r sc msg data details) =
     Logger_Warn ''Invalid HTTP status code provided, using 500'' [(''provided_code'', AInt sc)] #
     snd (HTTPResponse lib reg w r 500 msg data details)"
  by (simp add: HTTPResponse_def validateStatusCode_invalid validate_500 Let_def
      split: prod.splits option.splits)

text \<open>
  Claim C5. For every status code outside 100..599, \<open>validateStatusCode\<close>
  substitutes 500 and logs a warning naming the code provided. \<open>HTTPResponse\<close>
  then writes the status line 500 and leaves the writer exactly as a call with
  500 does; its log is the warning followed by the log of that call. The
  correction is silent: the response is produced, nothing is returned to the
  caller.
\<close>

theorem invalid_status_becomes_500:
  assumes "\<not> valid_status sc"
  shows "validateStatusCode sc =
           (500, [Logger_Warn ''Invalid HTTP status code provided, using 500''
                    [(''provided_code'', AInt sc)]]) \<and>
         rw_status (fst (HTTPResponse lib reg w r sc msg data details)) = rw_status w @ [500] \<and>
         StatusCode (HTTPResponse_resp reg sc msg data details) = 500 \<and>
         fst (HTTPResponse lib reg w r sc msg data details) =
           fst (HTTPResponse lib reg w r 500 msg data details) \<and>
         snd (HTTPResponse lib reg w r sc msg data details) =
           Logger_Warn ''Invalid HTTP status code provided, using 500''
             [(''provided_code'', AInt sc)] #
           snd (HTTPResponse lib reg w r 500 msg data details)"
proof -
  have v: "validateStatusCode sc =
           (500, [Logger_Warn ''Invalid HTTP status code provided, using 500''
                    [(''provided_code'', AInt sc)]])"
    using assms by (rule validateStatusCode_invalid)
  have resp: "HTTPResponse_resp reg sc msg data details = HTTPResponse_resp reg 500 msg data details"
    by (simp add: HTTPResponse_resp_def v validate_500)
  have wr: "fst (HTTPResponse lib reg w r sc msg data details) =
           fst (HTTPResponse lib reg w r 500 msg data details)"
    by (simp add: HTTPResponse_writer resp v validate_500)
  have st: "rw_status (fst (HTTPResponse lib reg w r sc msg data details)) = rw_status w @ [500]"
    by (simp add: HTTPResponse_status v)
  have code: "StatusCode (HTTPResponse_resp reg sc msg data details) = 500"
    by (simp add: resp_StatusCode v)
  from v st code wr HTTPResponse_logs_invalid [OF assms, of lib reg w r msg data details]
  show ?thesis by blast
qed

theorem invalid_status_becomes_500_witness:
  "\<not> valid_status 42 \<and> \<not> valid_status 600 \<and>
   validateStatusCode 600 =
     (500, [\<lparr>log_ctx = Background, log_level = LevelWarn,
              log_msg = ''Invalid HTTP status code provided, using 500'',
              log_attrs = [(''provided_code'', AInt 600)]\<rparr>]) \<and>
   rw_status (fst (HTTPResponse example_lib statusConfigMap new_recorder (Some get_request)
                     42 '''' None None)) = [500] \<and>
   rw_status (fst (HTTPResponse example_lib statusConfigMap new_recorder None
                     600 ''teapot'' None None)) = [500]"
proof -
  have a: "\<not> valid_status 42" by (simp add: valid_status_def)
  have b: "\<not> valid_status 600" by (simp add: valid_status_def)
  from invalid_status_becomes_500 [OF a, of example_lib statusConfigMap new_recorder
        "Some get_request" "''''" None None]
  have c: "rw_status (fst (HTTPResponse example_lib statusConfigMap new_recorder
             (Some get_request) 42 '''' None None)) = rw_status new_recorder @ [500]"
    by blast
  from invalid_status_becomes_500 [OF b, of example_lib statusConfigMap new_recorder
        None "''teapot''" None None]
  have d: "validateStatusCode 600 =
             (500, [Logger_Warn ''Invalid HTTP status code provided, using 500''
                      [(''provided_code'', AInt 600)]]) \<and>
           rw_status (fst (HTTPResponse example_lib statusConfigMap new_recorder
             None 600 ''teapot'' None None)) = rw_status new_recorder @ [500]"
    by blast
  show ?thesis
    using a b c d by (simp add: new_recorder_def Logger_Warn_def)
qed

subsection \<open>Serialization failure\<close>







text \<open>
  A writer that rejects the write is handled in the same way: the error of
  \<open>Write\<close> takes the place of the marshalling error.
\<close>

lemma write_failure_is_logged:
  assumes "rw_write_err w = Some err"
    and "marshal_Response (HTTPResponse_resp reg sc msg data details) = Inr j"
  shows "HTTPResponse lib reg w r sc msg data details =
           (WriteHeader (HTTPResponse_headers w) (fst (validateStatusCode sc)),
            snd (validateStatusCode sc) @ snd (HTTPResponse_reqInfo lib r) @
            [Logger_ErrorContext (case r of Some req \<Rightarrow> req_Context req | None \<Rightarrow> Background)
               ''Failed to encode JSON response''
               (HTTPResponse_logAttrs
                  (StatusCode (HTTPResponse_resp reg sc msg data details))
                  (Status (HTTPResponse_resp reg sc msg data details))
                  (Message (HTTPResponse_resp reg sc msg data details))
                  (fst (HTTPResponse_reqInfo lib r))
                  (Error (HTTPResponse_resp reg sc msg data details)) @
                [(''encoding_error'', AError err)])])"
proof (rule HTTPResponse_encode_failure)
  show "snd (Encode lib (WriteHeader (HTTPResponse_headers w) (fst (validateStatusCode sc)))
          (HTTPResponse_resp reg sc msg data details)) = Some err"
    using assms by (simp add: Encode_def Write_def WriteHeader_def HTTPResponse_headers_def)
qed


subsection \<open>Omitted fields\<close>

lemma marshal_keeps_data:
  fixes resp :: Response
  assumes "Data resp = Some (Encodable j)"
  shows "\<exists>d. marshal_Response resp = Inr d \<and> json_field d ''data'' = Some j"
  using assms by (simp add: marshal_Response_def json_field_def)

lemma marshal_keeps_error:
  fixes resp :: Response
  assumes "Data resp = None" and "Error resp = Some e"
  shows "\<exists>d. marshal_Response resp = Inr d \<and> json_field d ''error'' = Some (marshal_ErrorInfo e)"
  using assms by (simp add: marshal_Response_def json_field_def)

text \<open>
  Claim C9. Marshalling an envelope whose data and error fields are both nil
  gives a JSON object with exactly the keys \<open>status\<close>, \<open>statusCode\<close> and
  \<open>message\<close>: it has no \<open>data\<close> key and no \<open>error\<close> key, rather than keys with
  null values.
\<close>

theorem marshal_omits_nil_fields:
  fixes resp :: Response
  assumes "Data resp = None" and "Error resp = None"
  shows "marshal_Response resp =
           Inr (JObj [(''status'', JStr (Status resp)),
                      (''statusCode'', JNum (StatusCode resp)),
                      (''message'', JStr (Message resp))]) \<and>
         (\<exists>j. marshal_Response resp = Inr j \<and>
              json_keys j = [''status'', ''statusCode'', ''message''] \<and>
              json_field j ''data'' = None \<and> json_field j ''error'' = None)"
  using assms by (simp add: marshal_Response_def json_keys_def json_field_def)

theorem marshal_omits_nil_fields_witness:
  "Data (HTTPResponse_resp statusConfigMap 204 '''' None None) = None \<and>
   Error (HTTPResponse_resp statusConfigMap 204 '''' None None) = None \<and>
   marshal_Response (HTTPResponse_resp statusConfigMap 204 '''' None None) =
     Inr (JObj [(''status'', JStr ''success''), (''statusCode'', JNum 204),
                (''message'', JStr ''Request completed successfully'')])"
proof -
  have r: "HTTPResponse_resp statusConfigMap 204 '''' None None =
     \<lparr>Status = ''success'', StatusCode = 204, Message = ''Request completed successfully'',
      Data = None, Error = None\<rparr>"
    by (simp add: HTTPResponse_resp_def validateStatusCode_def getMessageForStatus_def
        HTTPResponse_errorInfo_def statusConfigMap_def statusConfigList_def)
  have d: "Data (HTTPResponse_resp statusConfigMap 204 '''' None None) = None"
    by (simp add: r)
  have e: "Error (HTTPResponse_resp statusConfigMap 204 '''' None None) = None"
    by (simp add: r)
  from marshal_omits_nil_fields [OF d e] d e show ?thesis
    by (simp add: r)
qed

subsection \<open>The response does not depend on the request\<close>

text \<open>
  Claim C10. What \<open>HTTPResponse\<close> writes (the headers, the status line and the
  body) is determined by the status code, the message, the payload and the
  details: two calls that differ only in the request, nil or not, leave the
  writer in the same state. The request reaches the log records only.
\<close>

theorem response_independent_of_request:
  "fst (HTTPResponse lib reg w r1 sc msg data details) =
   fst (HTTPResponse lib reg w r2 sc msg data details)"
  by (simp add: HTTPResponse_writer)

theorem response_independent_of_request_witness:
  "fst (HTTPResponse example_lib statusConfigMap new_recorder None 404 '''' None None) =
   fst (HTTPResponse example_lib statusConfigMap new_recorder (Some get_request) 404 '''' None None)"
  using response_independent_of_request [of example_lib statusConfigMap new_recorder None
      404 "''''" None None "Some get_request"]
  by simp

text \<open>The variant \<open>JSONResponse\<close> writes the same response.\<close>

lemma JSONResponse_writer:
  "fst (JSONResponse lib reg w r sc msg data details) =
   fst (HTTPResponse lib reg w r' sc msg data details)"
  by (simp add: JSONResponse_def HTTPResponse_writer HTTPResponse_resp_def Let_def
      split: prod.splits option.splits)

subsection \<open>The client address\<close>

lemma firstValidIP_filter:
  "firstValidIP lib ts =
     (case filter (ParseIP lib) (map (TrimSpace lib) ts) of [] \<Rightarrow> None | ip # _ \<Rightarrow> Some ip)"
  by (induction ts) (simp_all add: Let_def)

lemma example_resolve_forwarded:
  "resolve_spec example_lib (req_Header get_request) (req_RemoteAddr get_request) = ''9.9.9.9''"
  by code_simp

lemma example_resolve_remote:
  "resolve_spec example_lib (req_Header post_request) (req_RemoteAddr post_request) = ''6.6.6.6''"
  by code_simp

text \<open>
  Claim C3. For every header map and remote address, \<open>getClientIP\<close> returns the
  first candidate in this order: the tokens of \<open>X-Forwarded-For\<close>, split on
  commas and trimmed, that parse as an IP literal (malformed tokens are
  skipped); the trimmed \<open>X-Real-IP\<close> value if it parses; the host of the remote
  address if the address splits into host and port and the host parses; the
  remote address itself. It is a total function: it always returns a string.
\<close>

theorem getClientIP_precedence:
  "getClientIP lib r = resolve_spec lib (req_Header r) (req_RemoteAddr r)"
proof (cases "forwarded_candidates lib (req_Header r)")
  case (Cons ip ips)
  then show ?thesis
    by (auto simp add: getClientIP_def resolve_spec_def forwarded_candidates_def
        firstValidIP_filter Let_def split: if_splits)
next
  case Nil
  then have fwd: "(if Header_Get (req_Header r) ''X-Forwarded-For'' \<noteq> ''''
        then firstValidIP lib (strings_Split (Header_Get (req_Header r) ''X-Forwarded-For'') (CHR '',''))
        else None) = None"
    by (auto simp add: forwarded_candidates_def firstValidIP_filter split: if_splits list.splits)
  show ?thesis
    unfolding getClientIP_def Let_def fwd
    by (simp add: resolve_spec_def Nil real_ip_candidates_def remote_host_candidates_def
        split: option.splits prod.splits)
qed

theorem getClientIP_precedence_witness:
  "getClientIP example_lib get_request = ''9.9.9.9'' \<and>
   getClientIP example_lib post_request = ''6.6.6.6''"
  using getClientIP_precedence [of example_lib get_request]
    getClientIP_precedence [of example_lib post_request]
  by (simp add: example_resolve_forwarded example_resolve_remote)

subsection \<open>A nil request\<close>

text \<open>
  With a nil request both variants log the warning and build the same
  response. They differ in the snapshot: \<open>JSONResponse\<close> logs the placeholder
  \<open>UNKNOWN\<close> in its four fields.
\<close>

lemma JSONResponse_reqInfo_nil:
  "JSONResponse_reqInfo lib None =
     (\<lparr>Method = ''UNKNOWN'', Path = ''UNKNOWN'', UserAgent = ''UNKNOWN'',
       RemoteIP = ''UNKNOWN''\<rparr>,
      [Logger_Warn ''JSON response called with nil request'' []])"
  by (simp add: JSONResponse_reqInfo_def)

lemma HTTPResponse_reqInfo_nil:
  "HTTPResponse_reqInfo lib None =
     (\<lparr>Method = '''', Path = '''', UserAgent = '''', RemoteIP = ''''\<rparr>,
      [Logger_Warn ''JSON response called with nil request'' []])"
  by (simp add: HTTPResponse_reqInfo_def)

lemma JSONResponse_nil_request_snapshot:
  "snd (JSONResponse example_lib statusConfigMap new_recorder None 200 '''' None None) =
     [\<lparr>log_ctx = Background, log_level = LevelWarn,
       log_msg = ''JSON response called with nil request'', log_attrs = []\<rparr>,
      \<lparr>log_ctx = Background, log_level = LevelInfo, log_msg = ''HTTP response sent'',
       log_attrs =
         [(''statusCode'', AInt 200),
          (''status'', AString ''success''),
          (''message'', AString ''Request was successful''),
          (''method'', AString ''UNKNOWN''),
          (''path'', AString ''UNKNOWN''),
          (''user_agent'', AString ''UNKNOWN''),
          (''remote_ip'', AString ''UNKNOWN'')]\<rparr>]"
  by (simp add: JSONResponse_def validateStatusCode_def JSONResponse_reqInfo_def
      getMessageForStatus_def registry_200 HTTPResponse_errorInfo_def HTTPResponse_logLevel_def
      HTTPResponse_logMessage_def HTTPResponse_logAttrs_def Encode_def marshal_Response_def
      Write_def WriteHeader_def HTTPResponse_headers_def new_recorder_def Logger_Warn_def Let_def
      Logger_LogAttrs_def)

text \<open>
  Claim C6. \<open>HTTPResponse\<close> called with a nil request logs the warning, but the
  snapshot it logs afterwards is the zero value of \<open>RequestInfo\<close>: the method,
  the path, the user agent and the remote address are empty strings, not the
  placeholder \<open>UNKNOWN\<close>.
\<close>

theorem nil_request_snapshot_is_empty:
  "snd (HTTPResponse example_lib statusConfigMap new_recorder None 200 '''' None None) =
     [\<lparr>log_ctx = Background, log_level = LevelWarn,
       log_msg = ''JSON response called with nil request'', log_attrs = []\<rparr>,
      \<lparr>log_ctx = Background, log_level = LevelInfo, log_msg = ''HTTP response sent'',
       log_attrs =
         [(''statusCode'', AInt 200),
          (''status'', AString ''success''),
          (''message'', AString ''Request was successful''),
          (''method'', AString ''''),
          (''path'', AString ''''),
          (''user_agent'', AString ''''),
          (''remote_ip'', AString '''')]\<rparr>]"
  by (simp add: HTTPResponse_def validateStatusCode_def HTTPResponse_reqInfo_def
      getMessageForStatus_def registry_200 HTTPResponse_errorInfo_def HTTPResponse_logLevel_def
      HTTPResponse_logMessage_def HTTPResponse_logAttrs_def Encode_def marshal_Response_def
      Write_def WriteHeader_def HTTPResponse_headers_def new_recorder_def Logger_Warn_def Let_def
      Logger_LogAttrs_def)

end
